theory Spec2Isabelle
  imports Main "HOL-Library.Word"
begin

section \<open>gsnova, common/channel/remote.go: sessions, proxy streams, rate limits\<close>

text \<open>
  The file serves one multiplexed session (\<open>ServProxyMuxSession\<close>), handles each proxy
  stream accepted on it (\<open>handleProxyStream\<close>), reaps idle sessions (the goroutine of
  \<open>init\<close>) and keeps one token bucket per rate-limit key (\<open>getRateLimitBucket\<close>).
  Pointers are addresses (\<open>nat\<close>) into explicit stores; calls on collaborators outside
  the file (sessions, streams, connections, the peer-relay registry) are recorded as
  events, and what those collaborators answer is an argument of the model.
\<close>

subsection \<open>Machine integers, durations and instants\<close>

text \<open>
  Go \<open>int\<close> (64-bit platforms), \<open>int64\<close>, \<open>uint64\<close> and \<open>time.Duration\<close> (an
  \<open>int64\<close> of nanoseconds) are 64-bit words, \<open>int32\<close> is a 32-bit word; signed
  comparisons are \<open><s\<close> and \<open>\<le>s\<close>. An instant \<open>time.Time\<close> is a number of
  nanoseconds; \<open>Time.Sub\<close> saturates at the bounds of \<open>Duration\<close>, as the Go
  library documents.
\<close>

type_synonym int64 = "64 word"
type_synonym int32 = "32 word"
type_synonym Duration = "64 word"
type_synonym Time = int

definition Millisecond :: Duration where
  "Millisecond = 1000000"

definition Second :: Duration where
  "Second = 1000000000"

definition maxDuration :: Duration where
  "maxDuration = 9223372036854775807"

definition minDuration :: Duration where
  "minDuration = - 9223372036854775808"

definition time_Sub :: "Time \<Rightarrow> Time \<Rightarrow> Duration" where
  "time_Sub t u =
     (if t - u > 9223372036854775807 then maxDuration
      else if t - u < - 9223372036854775808 then minDuration
      else word_of_int (t - u))"

definition time_Add :: "Time \<Rightarrow> Duration \<Rightarrow> Time" where
  "time_Add t d = t + sint d"

subsection \<open>Errors\<close>

text \<open>
  The sentinels the file compares against or returns, an error that implements
  \<open>net.Error\<close> (with the answer of its \<open>Timeout()\<close>), and any other error.
  A Go \<open>error\<close> value is an \<open>error option\<close>, \<open>None\<close> being \<open>nil\<close>.
\<close>

datatype error =
    ErrTimeout
  | ErrSessionShutdown
  | ErrAuthFailed
  | NetError bool
  | OtherError string

subsection \<open>Messages and configuration\<close>

text \<open>
  The fields of \<open>mux.AuthRequest\<close>, \<open>mux.ConnectRequest\<close> and \<open>mux.StreamOptions\<close>
  that the file reads or writes.
\<close>

record AuthRequest =
  User :: string
  CompressMethod :: string
  CipherMethod :: string
  CipherCounter :: int64
  P2SPRoomId :: string
  P2SPConnId :: string

record ConnectRequest =
  Network :: string
  Addr :: string
  DialTimeout :: int64
  ReadTimeout :: int64
  Hops :: "string list"

record StreamOptions =
  optDialTimeout :: int64
  optReadTimeout :: int64
  optHops :: "string list"

text \<open>
  Modelled from the spec: the type \<open>CipherConfig\<close> of \<open>DefaultServerCipher\<close> is
  declared outside this file. The spec gives the server a default identity and cipher of
  its own (section 4.2) and a credential check \<open>VerifyUser\<close> (section 6); the record
  carries these.
\<close>

record CipherConfig =
  cipherUser :: string
  cipherMethod :: string
  cipherKey :: string
  VerifyUser :: "string \<Rightarrow> bool"

text \<open>
  The package-level configuration the file reads, and the pure helpers it calls:
  \<open>defaultMuxConfig\<close>, \<open>defaultProxyLimitConfig.Allowed\<close>, \<open>DefaultServerCipher\<close>,
  \<open>DefaultServerRateLimit.Limit\<close> (\<open>None\<close> is the nil map), \<open>helper.ToBytes\<close>,
  \<open>mux.IsValidCompressor\<close> and \<open>url.Parse\<close>.
\<close>

record config =
  StreamIdleTimeout :: int64
  SessionIdleTimeout :: int64
  Allowed :: "string \<Rightarrow> bool"
  DefaultServerCipher :: CipherConfig
  Limit :: "(string \<rightharpoonup> string) option"
  ToBytes :: "string \<Rightarrow> error + int64"
  IsValidCompressor :: "string \<Rightarrow> bool"
  url_Parse :: "string \<Rightarrow> error + string"

subsection \<open>Token buckets\<close>

text \<open>
  \<open>ratelimit.NewBucket\<close> belongs to the imported package github.com/juju/ratelimit.
  Its documentation: "NewBucket returns a new token bucket that fills at the rate of one
  token every fillInterval, up to the given maximum capacity"; it is
  \<open>NewBucketWithQuantum\<close> with quantum 1, where "quantum tokens are added every
  fillInterval". A bucket is described by these three numbers; \<open>bucket_Rate\<close> is the
  number of tokens it gains per second (the package's \<open>Rate()\<close>, on integers).
\<close>

record Bucket =
  fillInterval :: Duration
  capacity :: int64
  quantum :: int64

definition NewBucketWithQuantum :: "Duration \<Rightarrow> int64 \<Rightarrow> int64 \<Rightarrow> Bucket" where
  "NewBucketWithQuantum fi cap q = \<lparr>fillInterval = fi, capacity = cap, quantum = q\<rparr>"

definition NewBucket :: "Duration \<Rightarrow> int64 \<Rightarrow> Bucket" where
  "NewBucket fi cap = NewBucketWithQuantum fi cap 1"

definition bucket_Rate :: "Bucket \<Rightarrow> int" where
  "bucket_Rate b = (1000000000 * sint (quantum b)) div sint (fillInterval b)"

subsection \<open>The session context and the package state\<close>

record sessionContext =
  auth :: "AuthRequest option"
  activeIOTime :: Time
  streamCouter :: int32
  session :: nat
  closed :: bool
  isP2SP :: bool

text \<open>
  \<open>ctx_heap\<close> holds the pointee of every \<open>*sessionContext\<close>; \<open>emptySessions\<close> is the
  key set of the \<open>sync.Map\<close> (its values are always \<open>true\<close>); \<open>rateLimitBuckets\<close>
  maps a key to a \<open>*ratelimit.Bucket\<close>, an index into \<open>bucket_heap\<close>.
\<close>

record world =
  ctx_heap :: "nat \<Rightarrow> sessionContext"
  emptySessions :: "nat set"
  rateLimitBuckets :: "string \<rightharpoonup> nat"
  bucket_heap :: "Bucket list"

datatype conn = NetConn string string | MuxStreamConn nat

datatype event =
    SessionClose nat
  | StreamClose nat
  | RemoveP2spSession string string nat
  | AddP2spSession string string nat
  | WriteAuthOK nat
  | ResetCryptoContext nat string int64
  | GoHandleProxyStream nat nat
  | GoHandleP2spProxyStream nat nat
  | NetDialTimeout string string Duration
  | GetMuxStreamByURL string string CipherConfig
  | StreamConnect nat string string StreamOptions
  | ConnClose conn
  | SetReadDeadline conn Time
  | GoCopyStreamToConn nat conn
  | CopyConnToStream conn nat "nat option"
  | WaitCloseSig
  | WriterClose nat
  | ReaderClose nat

subsection \<open>sessionContext.close (lines 31-38)\<close>

definition sessionContext_close :: "nat \<Rightarrow> world \<Rightarrow> event list \<times> world" where
  "sessionContext_close p w =
     (let ctx = (ctx_heap w p)\<lparr>closed := True\<rparr>;
          ev1 = (case auth ctx of
                   Some a \<Rightarrow> if isP2SP ctx
                             then [RemoveP2spSession (P2SPRoomId a) (P2SPConnId a) (session ctx)]
                             else []
                 | None \<Rightarrow> [])
      in (ev1 @ [SessionClose (session ctx)],
          w\<lparr>ctx_heap := (ctx_heap w)(p := ctx),
            emptySessions := emptySessions w - {p}\<rparr>))"

subsection \<open>getRateLimitBucket (lines 40-70)\<close>

text \<open>
  \<open>limitPerSec\<close> is lines 52-58: \<open>-1\<close> unless the string is non-empty and
  \<open>helper.ToBytes\<close> accepts it, then the parsed \<open>uint64\<close> converted to \<open>int64\<close>.
\<close>

definition limitPerSec :: "config \<Rightarrow> string \<Rightarrow> int64" where
  "limitPerSec cfg l =
     (if length l > 0
      then (case ToBytes cfg l of Inr v \<Rightarrow> v | Inl e \<Rightarrow> - 1)
      else - 1)"

definition getRateLimitBucket :: "config \<Rightarrow> string \<Rightarrow> world \<Rightarrow> nat option \<times> world" where
  "getRateLimitBucket cfg user w =
     (case Limit cfg of
        None \<Rightarrow> (None, w)
      | Some lim \<Rightarrow>
          (let (l, exist, user) =
                 (case lim user of
                    Some l \<Rightarrow> (l, True, user)
                  | None \<Rightarrow> (case lim ''*'' of
                               Some l \<Rightarrow> (l, True, ''*'')
                             | None \<Rightarrow> ('''', False, ''*'')))
           in if \<not> exist then (None, w)
              else if limitPerSec cfg l \<le>s 0 then (None, w)
              else (case rateLimitBuckets w user of
                      Some r \<Rightarrow> (Some r, w)
                    | None \<Rightarrow>
                        (let r = length (bucket_heap w)
                         in (Some r,
                             w\<lparr>bucket_heap := bucket_heap w @ [NewBucket (1 * Second) (limitPerSec cfg l)],
                               rateLimitBuckets := (rateLimitBuckets w)(user \<mapsto> r)\<rparr>)))))"

subsection \<open>The reaper (the goroutine of init, lines 74-91)\<close>

text \<open>
  \<open>reaperVisit\<close> is the callback of \<open>emptySessions.Range\<close> at one key (lines 80-86).
  \<open>reaperRange\<close> is one \<open>Range\<close>: the keys are visited in some order \<open>ks\<close>, each one
  only if it is in the map when its turn comes. \<open>reaperTick\<close> is one tick of the
  ticker, which exists only when \<open>SessionIdleTimeout > 0\<close> (line 76).
\<close>

definition reaperVisit :: "config \<Rightarrow> Time \<Rightarrow> nat \<Rightarrow> world \<Rightarrow> event list \<times> world" where
  "reaperVisit cfg now p w =
     (let ago = time_Sub now (activeIOTime (ctx_heap w p))
      in if SessionIdleTimeout cfg * Second <s ago then sessionContext_close p w else ([], w))"

fun reaperRange :: "config \<Rightarrow> Time \<Rightarrow> nat list \<Rightarrow> world \<Rightarrow> event list \<times> world" where
  "reaperRange cfg now [] w = ([], w)"
| "reaperRange cfg now (k # ks) w =
     (if k \<in> emptySessions w
      then (case reaperVisit cfg now k w of
              (ev, w1) \<Rightarrow> (case reaperRange cfg now ks w1 of (ev', w2) \<Rightarrow> (ev @ ev', w2)))
      else reaperRange cfg now ks w)"

definition reaperTick :: "config \<Rightarrow> Time \<Rightarrow> nat list \<Rightarrow> world \<Rightarrow> event list \<times> world" where
  "reaperTick cfg now ks w =
     (if 0 <s SessionIdleTimeout cfg then reaperRange cfg now ks w else ([], w))"

subsection \<open>isTimeoutErr (lines 93-101)\<close>

definition isTimeoutErr :: "error option \<Rightarrow> bool" where
  "isTimeoutErr err =
     (if err = Some ErrTimeout then True
      else (case err of Some (NetError t) \<Rightarrow> t | _ \<Rightarrow> False))"

subsection \<open>handleProxyStream (lines 103-213)\<close>

text \<open>
  What the collaborators answer during one run of the handler: the result of
  \<open>mux.ReadConnectRequest\<close>, the error of \<open>net.DialTimeout\<close>, the result of
  \<open>GetMuxStreamByURL\<close>, the error of \<open>nextStream.Connect\<close>, whether the destination
  is a \<open>DeadLineAccetor\<close>, the successive copy attempts of the relay loop, whether the
  other copy goroutine ever signals \<open>closeSig\<close>, and whether the compressed writer and
  reader are \<open>io.Closer\<close>s. A copy attempt gives the clock at line 196, the error of
  \<open>io.CopyBuffer\<close>, and the clock and \<open>stream.LatestIOTime()\<close> at line 199.
\<close>

record copy_attempt =
  deadlineNow :: Time
  copyErr :: "error option"
  checkNow :: Time
  latestIOTime :: Time

record stream_env =
  readConnectRequest :: "error + ConnectRequest"
  dialResult :: "error option"
  getMuxStreamResult :: "error + nat"
  connectResult :: "error option"
  hasDeadline :: bool
  copies :: "copy_attempt list"
  closeSigArrives :: bool
  writerIsCloser :: bool
  readerIsCloser :: bool

text \<open>
  How a run ends: the handler returned; it panicked (a nil \<open>ctx.auth\<close> dereferenced
  at line 117); the relay loop has retried on every attempt the environment gave and is
  still running; the handler waits for \<open>closeSig\<close> for ever.
\<close>

datatype outcome = Returned | Panicked | RelayRunning | JoinBlocked

text \<open>Lines 104-105, and the deferred function of lines 106-110.\<close>

definition handleProxyStream_enter :: "nat \<Rightarrow> world \<Rightarrow> world" where
  "handleProxyStream_enter p w =
     w\<lparr>ctx_heap := (ctx_heap w)(p := (ctx_heap w p)\<lparr>streamCouter := streamCouter (ctx_heap w p) + 1\<rparr>),
       emptySessions := emptySessions w - {p}\<rparr>"

definition handleProxyStream_deferred :: "nat \<Rightarrow> world \<Rightarrow> world" where
  "handleProxyStream_deferred p w =
     (let ctx = (ctx_heap w p)\<lparr>streamCouter := streamCouter (ctx_heap w p) - 1\<rparr>;
          w1 = w\<lparr>ctx_heap := (ctx_heap w)(p := ctx)\<rparr>
      in if streamCouter ctx = 0 \<and> \<not> closed ctx
         then w1\<lparr>emptySessions := insert p (emptySessions w1)\<rparr>
         else w1)"

text \<open>Lines 124-127: the idle timeout of the relay loop before any override.\<close>

definition defaultMaxIdleTime :: "config \<Rightarrow> Duration" where
  "defaultMaxIdleTime cfg =
     (if StreamIdleTimeout cfg * Second = 0 then 10 * Second
      else StreamIdleTimeout cfg * Second)"

text \<open>
  Lines 124-170: the destination connection and the idle timeout of the relay loop, or
  the error left in \<open>err\<close>.
\<close>

definition connectDestination ::
  "config \<Rightarrow> stream_env \<Rightarrow> AuthRequest \<Rightarrow> ConnectRequest \<Rightarrow> event list \<times> (error + conn \<times> Duration)" where
  "connectDestination cfg env a creq =
     (let maxIdleTime = defaultMaxIdleTime cfg;
          dialTimeout = (if DialTimeout creq = 0 then 10000 else DialTimeout creq)
      in case Hops creq of
           [] \<Rightarrow>
             ([NetDialTimeout (Network creq) (Addr creq) (dialTimeout * Millisecond)],
              case dialResult env of
                Some e \<Rightarrow> Inl e
              | None \<Rightarrow>
                  Inr (NetConn (Network creq) (Addr creq),
                       if 0 <s ReadTimeout creq then ReadTimeout creq * Millisecond
                       else maxIdleTime))
         | next # nextHops \<Rightarrow>
             (case url_Parse cfg next of
                Inl e \<Rightarrow> ([], Inl e)
              | Inr nextURL \<Rightarrow>
                  (case getMuxStreamResult env of
                     Inl e \<Rightarrow>
                       ([GetMuxStreamByURL nextURL (User a) (DefaultServerCipher cfg)], Inl e)
                   | Inr nextStream \<Rightarrow>
                       ([GetMuxStreamByURL nextURL (User a) (DefaultServerCipher cfg),
                         StreamConnect nextStream (Network creq) (Addr creq)
                           \<lparr>optDialTimeout = DialTimeout creq,
                            optReadTimeout = ReadTimeout creq,
                            optHops = nextHops\<rparr>],
                        case connectResult env of
                          Some e \<Rightarrow> Inl e
                        | None \<Rightarrow> Inr (MuxStreamConn nextStream, maxIdleTime)))))"

text \<open>
  Lines 195-198: the deadline, set when the destination accepts one, and the copy from
  the destination (read through the bucket, if any) to the stream.
\<close>

definition copyAttempt ::
  "conn \<Rightarrow> bool \<Rightarrow> nat \<Rightarrow> nat option \<Rightarrow> Duration \<Rightarrow> copy_attempt \<Rightarrow> event list" where
  "copyAttempt c dl stream bucket maxIdleTime a =
     (if dl then [SetReadDeadline c (time_Add (deadlineNow a) maxIdleTime)] else [])
     @ [CopyConnToStream c stream bucket]"

text \<open>
  The loop of lines 194-205. The result says whether the loop has ended, with the events
  so far; when the attempts run out the loop is still retrying.
\<close>

fun relayLoop ::
  "conn \<Rightarrow> bool \<Rightarrow> nat \<Rightarrow> nat option \<Rightarrow> Duration \<Rightarrow> copy_attempt list \<Rightarrow> bool \<times> event list" where
  "relayLoop c dl stream bucket maxIdleTime [] = (False, [])"
| "relayLoop c dl stream bucket maxIdleTime (a # rest) =
     (if isTimeoutErr (copyErr a) \<and> time_Sub (checkNow a) (latestIOTime a) <s maxIdleTime
      then (case relayLoop c dl stream bucket maxIdleTime rest of
              (done, ev') \<Rightarrow> (done, copyAttempt c dl stream bucket maxIdleTime a @ ev'))
      else (True, copyAttempt c dl stream bucket maxIdleTime a @ [ConnClose c, StreamClose stream]))"

text \<open>Lines 176-212, then the deferred \<open>c.Close()\<close> of line 177.\<close>

definition relay ::
  "config \<Rightarrow> stream_env \<Rightarrow> AuthRequest \<Rightarrow> nat \<Rightarrow> conn \<Rightarrow> Duration \<Rightarrow> world
     \<Rightarrow> outcome \<times> event list \<times> world" where
  "relay cfg env a stream c maxIdleTime w =
     (case getRateLimitBucket cfg (User a) w of
        (rateLimitBucket, w1) \<Rightarrow>
          (case relayLoop c (hasDeadline env) stream rateLimitBucket maxIdleTime (copies env) of
             (done, ev) \<Rightarrow>
               if \<not> done then (RelayRunning, GoCopyStreamToConn stream c # ev, w1)
               else if \<not> closeSigArrives env
               then (JoinBlocked, GoCopyStreamToConn stream c # ev, w1)
               else (Returned,
                     GoCopyStreamToConn stream c # ev @ [WaitCloseSig]
                       @ (if writerIsCloser env then [WriterClose stream] else [])
                       @ (if readerIsCloser env then [ReaderClose stream] else [])
                       @ [ConnClose c],
                     w1)))"

definition handleProxyStream_body ::
  "config \<Rightarrow> stream_env \<Rightarrow> nat \<Rightarrow> nat \<Rightarrow> world \<Rightarrow> outcome \<times> event list \<times> world" where
  "handleProxyStream_body cfg env stream p w =
     (case readConnectRequest env of
        Inl e \<Rightarrow> (Returned, [StreamClose stream], w)
      | Inr creq \<Rightarrow>
          (case auth (ctx_heap w p) of
             None \<Rightarrow> (Panicked, [], w)
           | Some a \<Rightarrow>
               if \<not> Allowed cfg (Addr creq) then (Returned, [StreamClose stream], w)
               else (case connectDestination cfg env a creq of
                       (ev, Inl e) \<Rightarrow> (Returned, ev @ [StreamClose stream], w)
                     | (ev, Inr (c, maxIdleTime)) \<Rightarrow>
                         (case relay cfg env a stream c maxIdleTime w of
                            (out, ev', w') \<Rightarrow> (out, ev @ ev', w')))))"

definition handleProxyStream ::
  "config \<Rightarrow> stream_env \<Rightarrow> nat \<Rightarrow> nat \<Rightarrow> world \<Rightarrow> outcome \<times> event list \<times> world" where
  "handleProxyStream cfg env stream p w =
     (case handleProxyStream_body cfg env stream p (handleProxyStream_enter p w) of
        (out, ev, w') \<Rightarrow>
          if out = Returned \<or> out = Panicked
          then (out, ev, handleProxyStream_deferred p w')
          else (out, ev, w'))"

subsection \<open>ServProxyMuxSession (lines 217-272)\<close>

text \<open>
  What \<open>session.AcceptStream\<close> answers, one entry per call: an error, or a stream
  together with what \<open>mux.ReadAuthRequest\<close> and \<open>addP2spSession\<close> answer if the loop
  calls them for this stream.
\<close>

datatype accepted =
    AcceptError error
  | AcceptStream nat "error + AuthRequest" bool

text \<open>
  Lines 232-263, run when \<open>ctx.auth\<close> is nil: the handshake on the accepted stream.
  \<open>pms\<close> says whether the session is a \<open>*mux.ProxyMuxSession\<close>. The first component
  is the error returned from \<open>ServProxyMuxSession\<close>, or \<open>None\<close> when the loop
  continues.
\<close>

definition authHandshake ::
  "config \<Rightarrow> nat \<Rightarrow> bool \<Rightarrow> nat \<Rightarrow> nat \<Rightarrow> error + AuthRequest \<Rightarrow> bool \<Rightarrow> world
     \<Rightarrow> error option \<times> event list \<times> world" where
  "authHandshake cfg sess pms p stream readAuth addOk w =
     (case readAuth of
        Inl e \<Rightarrow> (None, [], w)
      | Inr recvAuth \<Rightarrow>
          if \<not> VerifyUser (DefaultServerCipher cfg) (User recvAuth)
          then (Some ErrAuthFailed, [SessionClose sess], w)
          else if \<not> IsValidCompressor cfg (CompressMethod recvAuth)
          then (Some ErrAuthFailed, [SessionClose sess], w)
          else
            (let w1 = w\<lparr>ctx_heap := (ctx_heap w)(p := (ctx_heap w p)\<lparr>auth := Some recvAuth\<rparr>)\<rparr>
             in if length (P2SPRoomId recvAuth) > 0
                then
                  (if \<not> addOk
                   then (Some ErrAuthFailed,
                         [AddP2spSession (P2SPRoomId recvAuth) (P2SPConnId recvAuth) sess,
                          SessionClose sess], w1)
                   else (None,
                         [AddP2spSession (P2SPRoomId recvAuth) (P2SPConnId recvAuth) sess,
                          WriteAuthOK stream, StreamClose stream]
                         @ (if pms
                            then [ResetCryptoContext sess (CipherMethod recvAuth) (CipherCounter recvAuth)]
                            else []),
                         w1\<lparr>ctx_heap := (ctx_heap w1)(p := (ctx_heap w1 p)\<lparr>isP2SP := True\<rparr>)\<rparr>))
                else (None,
                      [WriteAuthOK stream, StreamClose stream]
                      @ (if pms
                         then [ResetCryptoContext sess (CipherMethod recvAuth) (CipherCounter recvAuth)]
                         else []),
                      w1)))"

text \<open>
  The loop of lines 223-271 on the context at \<open>p\<close>. The result is the error returned,
  or \<open>None\<close> when the loop waits in \<open>AcceptStream\<close> after the last entry.
\<close>

fun serveLoop ::
  "config \<Rightarrow> nat \<Rightarrow> bool \<Rightarrow> nat \<Rightarrow> accepted list \<Rightarrow> world \<Rightarrow> error option \<times> event list \<times> world" where
  "serveLoop cfg sess pms p [] w = (None, [], w)"
| "serveLoop cfg sess pms p (AcceptError err # rest) w = (Some err, [], w)"
| "serveLoop cfg sess pms p (AcceptStream stream readAuth addOk # rest) w =
     (if auth (ctx_heap w p) = None
      then (case authHandshake cfg sess pms p stream readAuth addOk w of
              (Some err, ev, w1) \<Rightarrow> (Some err, ev, w1)
            | (None, ev, w1) \<Rightarrow>
                (case serveLoop cfg sess pms p rest w1 of
                   (r, ev', w2) \<Rightarrow> (r, ev @ ev', w2)))
      else (case serveLoop cfg sess pms p rest w of
              (r, ev', w2) \<Rightarrow>
                (r, (if isP2SP (ctx_heap w p)
                     then GoHandleP2spProxyStream stream p
                     else GoHandleProxyStream stream p) # ev', w2)))"

text \<open>Lines 218-221: the context allocated at the fresh address \<open>p\<close>.\<close>

definition newSessionContext :: "nat \<Rightarrow> AuthRequest option \<Rightarrow> Time \<Rightarrow> sessionContext" where
  "newSessionContext sess a now =
     \<lparr>auth = a, activeIOTime = now, streamCouter = 0, session = sess,
      closed = False, isP2SP = False\<rparr>"

definition ServProxyMuxSession ::
  "config \<Rightarrow> nat \<Rightarrow> bool \<Rightarrow> AuthRequest option \<Rightarrow> Time \<Rightarrow> nat \<Rightarrow> accepted list \<Rightarrow> world
     \<Rightarrow> error option \<times> event list \<times> world" where
  "ServProxyMuxSession cfg sess pms a now p script w =
     (case serveLoop cfg sess pms p script
             (w\<lparr>ctx_heap := (ctx_heap w)(p := newSessionContext sess a now)\<rparr>) of
        (None, ev, w1) \<Rightarrow> (None, ev, w1)
      | (Some err, ev, w1) \<Rightarrow>
          (case sessionContext_close p w1 of
             (ev', w2) \<Rightarrow> (Some err, ev @ ev', w2)))"

subsection \<open>Schedules of one context\<close>

text \<open>
  The steps that touch the counter, the flag and the idle set of the context at \<open>p\<close>:
  a handler's entry (lines 104-105), a handler's deferred exit (lines 106-110), and a
  call of \<open>close\<close> (by the accept loop or by the reaper). Each step runs as a whole.
  \<open>handlers n steps\<close> says that, with \<open>n\<close> handlers running, the steps are a possible
  schedule: only a running handler exits, and fewer than \<open>2 ^ 31\<close> run at a time.
\<close>

datatype step = Enter | Exit | Close

fun ctx_step :: "nat \<Rightarrow> step \<Rightarrow> world \<Rightarrow> world" where
  "ctx_step p Enter w = handleProxyStream_enter p w"
| "ctx_step p Exit w = handleProxyStream_deferred p w"
| "ctx_step p Close w = snd (sessionContext_close p w)"

fun ctx_run :: "nat \<Rightarrow> step list \<Rightarrow> world \<Rightarrow> world" where
  "ctx_run p [] w = w"
| "ctx_run p (s # steps) w = ctx_run p steps (ctx_step p s w)"

fun handlers :: "nat \<Rightarrow> step list \<Rightarrow> bool" where
  "handlers n [] = True"
| "handlers n (Enter # steps) = (n + 1 < 2 ^ 31 \<and> handlers (n + 1) steps)"
| "handlers n (Exit # steps) = (0 < n \<and> handlers (n - 1) steps)"
| "handlers n (Close # steps) = handlers n steps"

subsection \<open>Concrete inputs\<close>

definition cfgA :: config where
  "cfgA = \<lparr>StreamIdleTimeout = 0, SessionIdleTimeout = 60,
     Allowed = (\<lambda>a. a \<noteq> ''blocked:1''),
     DefaultServerCipher = \<lparr>cipherUser = ''server'', cipherMethod = ''auto'', cipherKey = ''k'',
                             VerifyUser = (\<lambda>u. u = ''alice'' \<or> u = ''bob'')\<rparr>,
     Limit = Some [''*'' \<mapsto> ''1000''],
     ToBytes = (\<lambda>s. if s = ''1000'' then Inr 1000 else Inl (OtherError ''invalid byte quantity'')),
     IsValidCompressor = (\<lambda>m. m = ''none'' \<or> m = ''snappy''),
     url_Parse = (\<lambda>s. if s = '''' then Inl (OtherError ''empty url'') else Inr s)\<rparr>"

definition w0 :: world where
  "w0 = \<lparr>ctx_heap = (\<lambda>p. newSessionContext 0 None 0), emptySessions = {},
         rateLimitBuckets = Map.empty, bucket_heap = []\<rparr>"

definition authA :: AuthRequest where
  "authA = \<lparr>User = ''alice'', CompressMethod = ''none'', CipherMethod = ''auto'',
            CipherCounter = 0, P2SPRoomId = '''', P2SPConnId = ''''\<rparr>"

definition creqD :: ConnectRequest where
  "creqD = \<lparr>Network = ''tcp'', Addr = ''example.org:80'', DialTimeout = 0,
            ReadTimeout = 5000, Hops = []\<rparr>"

definition creqH :: ConnectRequest where
  "creqH = \<lparr>Network = ''tcp'', Addr = ''example.org:80'', DialTimeout = 0,
            ReadTimeout = 5000, Hops = [''hopA'', ''hopB'']\<rparr>"

definition attRetry :: copy_attempt where
  "attRetry = \<lparr>deadlineNow = 49000000000, copyErr = Some (NetError True),
               checkNow = 50000000000, latestIOTime = 49500000000\<rparr>"

definition attEOF :: copy_attempt where
  "attEOF = \<lparr>deadlineNow = 50000000000, copyErr = None,
             checkNow = 100000000000, latestIOTime = 100000000000\<rparr>"

definition attIdle :: copy_attempt where
  "attIdle = \<lparr>deadlineNow = 100000000000, copyErr = Some ErrTimeout,
              checkNow = 110000000000, latestIOTime = 100000000000\<rparr>"

definition envD :: stream_env where
  "envD = \<lparr>readConnectRequest = Inr creqD, dialResult = None, getMuxStreamResult = Inr 9,
           connectResult = None, hasDeadline = True,
           copies = [attRetry, attEOF],
           closeSigArrives = True, writerIsCloser = False, readerIsCloser = False\<rparr>"

definition envH :: stream_env where
  "envH = envD\<lparr>readConnectRequest := Inr creqH\<rparr>"

text \<open>
  The package state once \<open>ServProxyMuxSession\<close> has started session 7 for \<open>authA\<close>
  at instant 0, with its context at address 0, and waits in \<open>AcceptStream\<close>.
\<close>

definition wS :: world where
  "wS = snd (snd (ServProxyMuxSession cfgA 7 False (Some authA) 0 0 [] w0))"

text \<open>The package state after one handler has then run \<open>envD\<close> on stream 3 and returned.\<close>

definition wIdle :: world where
  "wIdle = snd (snd (handleProxyStream cfgA envD 3 0 wS))"

text \<open>
  The invariant of a schedule with \<open>n\<close> running handlers, \<open>ex\<close> saying whether some
  handler has exited already.
\<close>

definition ctx_inv :: "nat \<Rightarrow> nat \<Rightarrow> bool \<Rightarrow> world \<Rightarrow> bool" where
  "ctx_inv p n ex w \<longleftrightarrow>
     streamCouter (ctx_heap w p) = of_nat n \<and> n < 2 ^ 31
     \<and> (p \<in> emptySessions w \<longleftrightarrow> n = 0 \<and> \<not> closed (ctx_heap w p) \<and> ex)"

section \<open>Properties\<close>

subsection \<open>The rate-limit registry\<close>

lemma not_sle_zero: "(\<not> (a::int64) \<le>s 0) = (0 <s a)"
  by (simp add: word_sle_eq word_sless_alt not_le)

lemma getRateLimitBucket_keeps:
  "rateLimitBuckets w k = Some r \<Longrightarrow> rateLimitBuckets (snd (getRateLimitBucket cfg u w)) k = Some r"
  by (auto simp: getRateLimitBucket_def Let_def split: option.splits)

text \<open>
  When \<open>getRateLimitBucket\<close> returns no bucket: no limit table, no entry for the user
  nor for \<open>*\<close>, or an entry that is empty or whose \<open>limitPerSec\<close> is not positive.
\<close>

lemma getRateLimitBucket_None_iff:
  "fst (getRateLimitBucket cfg user w) = None \<longleftrightarrow>
     (case Limit cfg of
        None \<Rightarrow> True
      | Some lim \<Rightarrow>
          (case lim user of
             Some l \<Rightarrow> l = [] \<or> limitPerSec cfg l \<le>s 0
           | None \<Rightarrow> (case lim ''*'' of
                        Some l \<Rightarrow> l = [] \<or> limitPerSec cfg l \<le>s 0
                      | None \<Rightarrow> True)))"
  by (auto simp: getRateLimitBucket_def Let_def limitPerSec_def word_sle_eq split: option.splits)

text \<open>
  C7. The claim: a configured user gets a bucket whose refill rate is the configured
  number of bytes per second. With the limit \<open>1000\<close> configured for \<open>*\<close> and an empty
  cache, the user \<open>bob\<close> gets the bucket \<open>NewBucket (1 s) 1000\<close>: its capacity is 1000
  and it gains one token per second, where the configured rate \<open>limitPerSec\<close> is 1000.
\<close>

theorem C7_bucket_refills_one_token_per_second:
  "fst (getRateLimitBucket cfgA ''bob'' w0) = Some 0
   \<and> bucket_heap (snd (getRateLimitBucket cfgA ''bob'' w0)) ! 0
       = \<lparr>fillInterval = 1000000000, capacity = 1000, quantum = 1\<rparr>
   \<and> bucket_Rate (bucket_heap (snd (getRateLimitBucket cfgA ''bob'' w0)) ! 0) = 1
   \<and> limitPerSec cfgA ''1000'' = 1000"
  by (simp add: getRateLimitBucket_def cfgA_def w0_def limitPerSec_def NewBucket_def
      NewBucketWithQuantum_def Second_def bucket_Rate_def word_sle_eq)

text \<open>
  C10. Two users without an entry of their own, under a wildcard entry with a positive
  limit: the first call returns a bucket that is cached under the key \<open>*\<close>, and the call
  for the second user returns the same address, also when a call for any third user
  comes in between.
\<close>

theorem C10_wildcard_bucket_shared:
  assumes "Limit cfg = Some lim" and "lim u1 = None" and "lim u2 = None"
    and "lim ''*'' = Some l" and "0 <s limitPerSec cfg l"
  shows "\<exists>r. fst (getRateLimitBucket cfg u1 w) = Some r
           \<and> rateLimitBuckets (snd (getRateLimitBucket cfg u1 w)) ''*'' = Some r
           \<and> fst (getRateLimitBucket cfg u2 (snd (getRateLimitBucket cfg u1 w))) = Some r
           \<and> fst (getRateLimitBucket cfg u2
                    (snd (getRateLimitBucket cfg u3 (snd (getRateLimitBucket cfg u1 w))))) = Some r"
proof -
  from assms(5) have pos: "\<not> limitPerSec cfg l \<le>s 0"
    by (simp add: not_sle_zero)
  have "\<exists>r. fst (getRateLimitBucket cfg u1 w) = Some r
          \<and> rateLimitBuckets (snd (getRateLimitBucket cfg u1 w)) ''*'' = Some r"
    using assms(1,2,4) pos
    by (cases "rateLimitBuckets w ''*''") (simp_all add: getRateLimitBucket_def Let_def)
  then obtain r where r: "fst (getRateLimitBucket cfg u1 w) = Some r"
    and c: "rateLimitBuckets (snd (getRateLimitBucket cfg u1 w)) ''*'' = Some r"
    by blast
  have hit: "fst (getRateLimitBucket cfg u2 w') = Some r"
    if "rateLimitBuckets w' ''*'' = Some r" for w'
    using assms(1,3,4) pos that
    by (simp add: getRateLimitBucket_def)
  from c have c3: "rateLimitBuckets
      (snd (getRateLimitBucket cfg u3 (snd (getRateLimitBucket cfg u1 w)))) ''*'' = Some r"
    by (rule getRateLimitBucket_keeps)
  show ?thesis using r c hit[OF c] hit[OF c3] by blast
qed

theorem C10_wildcard_bucket_shared_witness:
  "fst (getRateLimitBucket cfgA ''alice'' w0) = Some 0
   \<and> fst (getRateLimitBucket cfgA ''bob'' (snd (getRateLimitBucket cfgA ''alice'' w0))) = Some 0
   \<and> rateLimitBuckets (snd (getRateLimitBucket cfgA ''alice'' w0)) ''*'' = Some 0"
proof -
  have h1: "Limit cfgA = Some [''*'' \<mapsto> ''1000'']" by (simp add: cfgA_def)
  have h2: "[''*'' \<mapsto> ''1000''] ''alice'' = None" by simp
  have h3: "[''*'' \<mapsto> ''1000''] ''bob'' = None" by simp
  have h4: "[''*'' \<mapsto> ''1000''] ''*'' = Some ''1000''" by simp
  have h5: "0 <s limitPerSec cfgA ''1000''"
    by (simp add: limitPerSec_def cfgA_def word_sless_alt)
  have h6: "fst (getRateLimitBucket cfgA ''alice'' w0) = Some 0"
    by (simp add: getRateLimitBucket_def cfgA_def w0_def limitPerSec_def word_sle_eq)
  from C10_wildcard_bucket_shared [OF h1 h2 h3 h4 h5, where w = w0] h6 show ?thesis
    by auto
qed

subsection \<open>The stream counter and the idle-candidate set\<close>

lemma int32_of_nat_eq_0: "n < 2 ^ 31 \<Longrightarrow> (of_nat n :: int32) = 0 \<longleftrightarrow> n = 0"
  by (auto simp: word_of_nat_eq_0_iff dest: dvd_imp_le)

lemma int32_sint_of_nat: "n < 2 ^ 31 \<Longrightarrow> sint (of_nat n :: int32) = int n"
  by (simp add: signed_of_nat signed_take_bit_int_eq_self)

lemma ctx_inv_Enter:
  "ctx_inv p n ex w \<Longrightarrow> Suc n < 2 ^ 31 \<Longrightarrow> ctx_inv p (Suc n) ex (handleProxyStream_enter p w)"
  by (simp add: ctx_inv_def handleProxyStream_enter_def)

lemma ctx_inv_Exit:
  "ctx_inv p (Suc n) ex w \<Longrightarrow> ctx_inv p n True (handleProxyStream_deferred p w)"
  by (auto simp: ctx_inv_def handleProxyStream_deferred_def Let_def int32_of_nat_eq_0)

lemma ctx_inv_Close:
  "ctx_inv p n ex w \<Longrightarrow> ctx_inv p n ex (snd (sessionContext_close p w))"
  by (simp add: ctx_inv_def sessionContext_close_def Let_def)

lemma ctx_inv_run:
  "ctx_inv p n ex w \<Longrightarrow> handlers n steps
     \<Longrightarrow> \<exists>m. ctx_inv p m (ex \<or> Exit \<in> set steps) (ctx_run p steps w)"
proof (induction steps arbitrary: n ex w)
  case Nil
  then show ?case by auto
next
  case (Cons s steps)
  show ?case
  proof (cases s)
    case Enter
    with Cons.prems have "ctx_inv p (Suc n) ex (ctx_step p s w)" and "handlers (Suc n) steps"
      by (simp_all add: ctx_inv_Enter)
    from Cons.IH [OF this] Enter show ?thesis by simp
  next
    case Exit
    with Cons.prems obtain m where m: "n = Suc m"
      by (cases n) simp_all
    with Exit Cons.prems have "ctx_inv p m True (ctx_step p s w)" and "handlers m steps"
      by (simp_all add: ctx_inv_Exit)
    from Cons.IH [OF this] Exit show ?thesis by simp
  next
    case Close
    with Cons.prems have "ctx_inv p n ex (ctx_step p s w)" and "handlers n steps"
      by (simp_all add: ctx_inv_Close)
    from Cons.IH [OF this] Close show ?thesis by simp
  qed
qed

lemma getRateLimitBucket_keeps_ctx:
  "getRateLimitBucket cfg u w = (b, w')
     \<Longrightarrow> ctx_heap w' = ctx_heap w \<and> emptySessions w' = emptySessions w"
  by (auto simp: getRateLimitBucket_def Let_def split: option.splits if_splits prod.splits)

lemma relay_keeps_ctx:
  "relay cfg env a stream c m w = (out, ev, w')
     \<Longrightarrow> ctx_heap w' = ctx_heap w \<and> emptySessions w' = emptySessions w"
  by (auto simp: relay_def split: prod.splits if_splits dest: getRateLimitBucket_keeps_ctx)

lemma body_keeps_ctx:
  "handleProxyStream_body cfg env stream p w = (out, ev, w')
     \<Longrightarrow> ctx_heap w' = ctx_heap w \<and> emptySessions w' = emptySessions w"
  by (auto simp: handleProxyStream_body_def
        split: sum.splits option.splits prod.splits if_splits dest: relay_keeps_ctx)


lemma wS_ctx: "ctx_heap wS 0 = newSessionContext 7 (Some authA) 0 \<and> emptySessions wS = {}"
  by (simp add: wS_def ServProxyMuxSession_def w0_def)

text \<open>
  C5, as stated, fails: the context that \<open>ServProxyMuxSession\<close> has just created has
  a zero counter and is not closed, and it is not in \<open>emptySessions\<close>.
\<close>

theorem C5_fresh_context_not_in_idle_set:
  "streamCouter (ctx_heap wS 0) = 0 \<and> \<not> closed (ctx_heap wS 0) \<and> 0 \<notin> emptySessions wS"
  by (simp add: wS_ctx newSessionContext_def)

text \<open>
  C5, amended. On a context created by \<open>ServProxyMuxSession\<close>, after any schedule
  of handler entries, handler exits and closes in which each step runs as a whole and
  fewer than \<open>2 ^ 31\<close> handlers run at a time: the counter is not negative, and the
  context is in \<open>emptySessions\<close> if and only if the counter is zero, the context is
  not closed and some handler has exited. A handler adds one to the counter and removes
  the context from the set on entry; on exit it subtracts one, and adds the context to
  the set only when the counter has reached zero and the context is not closed.
\<close>

theorem C5_counter_and_idle_set:
  assumes "handlers 0 steps" and "p \<notin> emptySessions w"
    and "ctx_heap w p = newSessionContext sess a now"
  shows "0 \<le>s streamCouter (ctx_heap (ctx_run p steps w) p)
     \<and> (p \<in> emptySessions (ctx_run p steps w) \<longleftrightarrow>
          streamCouter (ctx_heap (ctx_run p steps w) p) = 0
          \<and> \<not> closed (ctx_heap (ctx_run p steps w) p) \<and> Exit \<in> set steps)
     \<and> streamCouter (ctx_heap (handleProxyStream_enter p v) p) = streamCouter (ctx_heap v p) + 1
     \<and> p \<notin> emptySessions (handleProxyStream_enter p v)
     \<and> streamCouter (ctx_heap (handleProxyStream_deferred p v) p) = streamCouter (ctx_heap v p) - 1
     \<and> (p \<in> emptySessions (handleProxyStream_deferred p v) \<longleftrightarrow>
          p \<in> emptySessions v \<or> (streamCouter (ctx_heap v p) - 1 = 0 \<and> \<not> closed (ctx_heap v p)))"
proof -
  from assms(2,3) have "ctx_inv p 0 False w"
    by (simp add: ctx_inv_def newSessionContext_def)
  from ctx_inv_run [OF this assms(1)]
  obtain m where m: "ctx_inv p m (Exit \<in> set steps) (ctx_run p steps w)"
    by auto
  then have c: "streamCouter (ctx_heap (ctx_run p steps w) p) = of_nat m" and b: "m < 2 ^ 31"
    by (simp_all add: ctx_inv_def)
  from b have "0 \<le>s (of_nat m :: int32)"
    by (simp add: word_sle_eq int32_sint_of_nat)
  with c have nonneg: "0 \<le>s streamCouter (ctx_heap (ctx_run p steps w) p)"
    by simp
  from m b have mem: "p \<in> emptySessions (ctx_run p steps w) \<longleftrightarrow>
          streamCouter (ctx_heap (ctx_run p steps w) p) = 0
          \<and> \<not> closed (ctx_heap (ctx_run p steps w) p) \<and> Exit \<in> set steps"
    by (simp add: ctx_inv_def int32_of_nat_eq_0)
  have e: "streamCouter (ctx_heap (handleProxyStream_enter p v) p) = streamCouter (ctx_heap v p) + 1
     \<and> p \<notin> emptySessions (handleProxyStream_enter p v)"
    by (simp add: handleProxyStream_enter_def)
  have d: "streamCouter (ctx_heap (handleProxyStream_deferred p v) p) = streamCouter (ctx_heap v p) - 1
     \<and> (p \<in> emptySessions (handleProxyStream_deferred p v) \<longleftrightarrow>
          p \<in> emptySessions v \<or> (streamCouter (ctx_heap v p) - 1 = 0 \<and> \<not> closed (ctx_heap v p)))"
    by (auto simp: handleProxyStream_deferred_def Let_def)
  from nonneg mem e d show ?thesis by blast
qed

theorem C5_counter_and_idle_set_witness:
  "handlers 0 [Enter, Enter, Exit, Exit] \<and> 0 \<notin> emptySessions wS
   \<and> 0 \<le>s streamCouter (ctx_heap (ctx_run 0 [Enter, Enter, Exit, Exit] wS) 0)
   \<and> 0 \<in> emptySessions (ctx_run 0 [Enter, Enter, Exit, Exit] wS)"
proof -
  have h1: "handlers 0 [Enter, Enter, Exit, Exit]" by simp
  have h2: "0 \<notin> emptySessions wS" by (simp add: wS_ctx)
  have h3: "ctx_heap wS 0 = newSessionContext 7 (Some authA) 0" by (simp add: wS_ctx)
  have h4: "streamCouter (ctx_heap (ctx_run 0 [Enter, Enter, Exit, Exit] wS) 0) = 0
     \<and> \<not> closed (ctx_heap (ctx_run 0 [Enter, Enter, Exit, Exit] wS) 0)"
    by (simp add: wS_ctx newSessionContext_def handleProxyStream_enter_def
          handleProxyStream_deferred_def Let_def)
  have h5: "Exit \<in> set [Enter, Enter, Exit, Exit]" by simp
  from C5_counter_and_idle_set [OF h1 h2 h3, where v = wS] h1 h2 h4 h5 show ?thesis by blast
qed

subsection \<open>The relay loop and the handler's stream\<close>

lemma isTimeoutErr_iff: "isTimeoutErr e \<longleftrightarrow> e = Some ErrTimeout \<or> e = Some (NetError True)"
  by (auto simp: isTimeoutErr_def split: option.splits error.splits)

lemma relayLoop_retries:
  "\<forall>a \<in> set pre. isTimeoutErr (copyErr a) \<and> time_Sub (checkNow a) (latestIOTime a) <s m
     \<Longrightarrow> relayLoop c dl s b m (pre @ rest)
         = (fst (relayLoop c dl s b m rest),
            concat (map (copyAttempt c dl s b m) pre) @ snd (relayLoop c dl s b m rest))"
  by (induction pre) (simp_all split: prod.splits)

lemma not_sless: "(\<not> (a::int64) <s b) = (b \<le>s a)"
  by (simp add: word_sle_eq word_sless_alt not_less)

text \<open>
  C3. While every copy attempt fails with a timeout-class error and
  \<open>now - LatestIOTime\<close> is below the idle timeout, the loop retries: it has not ended
  and has closed nothing. The first attempt that fails otherwise, or that times out when
  the stream has been silent for the idle timeout or longer, ends the loop, which closes
  the destination connection and then the stream; later attempts are never made. The
  timeout class is \<open>pmux.ErrTimeout\<close> and any \<open>net.Error\<close> whose \<open>Timeout()\<close>
  holds.
\<close>

theorem C3_relay_loop_retry_or_close:
  assumes "\<forall>a \<in> set pre. isTimeoutErr (copyErr a) \<and> time_Sub (checkNow a) (latestIOTime a) <s m"
  shows "relayLoop c dl s b m pre = (False, concat (map (copyAttempt c dl s b m) pre))
     \<and> ConnClose c \<notin> set (snd (relayLoop c dl s b m pre))
     \<and> StreamClose s \<notin> set (snd (relayLoop c dl s b m pre))
     \<and> (\<not> isTimeoutErr (copyErr x) \<or> m \<le>s time_Sub (checkNow x) (latestIOTime x)
          \<longrightarrow> relayLoop c dl s b m (pre @ x # rest)
              = (True, concat (map (copyAttempt c dl s b m) (pre @ [x])) @ [ConnClose c, StreamClose s]))
     \<and> (isTimeoutErr e \<longleftrightarrow> e = Some ErrTimeout \<or> e = Some (NetError True))"
proof -
  have a: "relayLoop c dl s b m pre = (False, concat (map (copyAttempt c dl s b m) pre))"
    using relayLoop_retries [OF assms, of c dl s b "[]"] by simp
  have n: "ConnClose c \<notin> set (concat (map (copyAttempt c dl s b m) pre))
      \<and> StreamClose s \<notin> set (concat (map (copyAttempt c dl s b m) pre))"
    by (auto simp: copyAttempt_def)
  have t: "relayLoop c dl s b m (pre @ x # rest)
              = (True, concat (map (copyAttempt c dl s b m) (pre @ [x])) @ [ConnClose c, StreamClose s])"
    if "\<not> isTimeoutErr (copyErr x) \<or> m \<le>s time_Sub (checkNow x) (latestIOTime x)"
    using relayLoop_retries [OF assms, of c dl s b "x # rest"] that
    by (auto simp: not_sless [symmetric])
  from a n t isTimeoutErr_iff show ?thesis by simp
qed

lemma relayLoop_count:
  "count_list (snd (relayLoop c dl s b m as)) (StreamClose s)
     = (if fst (relayLoop c dl s b m as) then 1 else 0)"
  by (induction as) (auto simp: copyAttempt_def split: prod.splits)

lemma relayLoop_running:
  "\<not> fst (relayLoop c dl s b m as)
     \<Longrightarrow> \<forall>a \<in> set as. isTimeoutErr (copyErr a) \<and> time_Sub (checkNow a) (latestIOTime a) <s m"
  by (induction as) (auto split: prod.splits if_splits)

lemma connectDestination_count:
  "connectDestination cfg env a creq = (ev, r) \<Longrightarrow> count_list ev (StreamClose s) = 0"
  by (auto simp: connectDestination_def Let_def split: list.splits sum.splits)

lemma relayLoop_result:
  "relayLoop c dl s b m as = (done, ev) \<Longrightarrow>
     count_list ev (StreamClose s) = (if done then 1 else 0)
     \<and> (\<not> done \<longrightarrow> (\<forall>a \<in> set as. isTimeoutErr (copyErr a)))"
  using relayLoop_count [of c dl s b m as] relayLoop_running [of c dl s b m as]
  by auto

lemma relay_count:
  "relay cfg env a s c m w = (out, ev, w') \<Longrightarrow>
     count_list ev (StreamClose s) = (if out = RelayRunning then 0 else 1)
     \<and> out \<noteq> Panicked
     \<and> (out = RelayRunning \<longrightarrow> (\<forall>a \<in> set (copies env). isTimeoutErr (copyErr a)))"
  by (auto simp: relay_def split: prod.splits if_splits dest!: relayLoop_result)

lemma body_count:
  "handleProxyStream_body cfg env s p w = (out, ev, w') \<Longrightarrow> auth (ctx_heap w p) \<noteq> None \<Longrightarrow>
     count_list ev (StreamClose s) = (if out = RelayRunning then 0 else 1)
     \<and> out \<noteq> Panicked
     \<and> (out = RelayRunning \<longrightarrow> (\<forall>a \<in> set (copies env). isTimeoutErr (copyErr a)))"
  by (auto simp: handleProxyStream_body_def
      split: sum.splits option.splits prod.splits if_splits
      dest!: relay_count dest: connectDestination_count)

lemma enter_auth: "auth (ctx_heap (handleProxyStream_enter p w) q) = auth (ctx_heap w q)"
  by (simp add: handleProxyStream_enter_def)

text \<open>
  C8. A handler started on a context whose \<open>auth\<close> is set (the only way
  \<open>ServProxyMuxSession\<close> starts one) never panics, and unless its relay loop is
  still retrying it has closed its stream, exactly once: after a failed read of the
  connect request, a rejected destination, a failed dial or hop step, and after the end
  of the relay loop. The relay loop is still retrying only if every copy attempt so far
  timed out.
\<close>

theorem C8_stream_closed_on_every_path:
  assumes "auth (ctx_heap w p) \<noteq> None"
  shows "(fst (handleProxyStream cfg env s p w) \<noteq> RelayRunning
            \<longrightarrow> count_list (fst (snd (handleProxyStream cfg env s p w))) (StreamClose s) = 1)
     \<and> (fst (handleProxyStream cfg env s p w) = RelayRunning
            \<longrightarrow> (\<forall>a \<in> set (copies env). isTimeoutErr (copyErr a)))
     \<and> fst (handleProxyStream cfg env s p w) \<noteq> Panicked"
proof -
  obtain out ev w' where b:
    "handleProxyStream_body cfg env s p (handleProxyStream_enter p w) = (out, ev, w')"
    by (cases "handleProxyStream_body cfg env s p (handleProxyStream_enter p w)")
  from assms have "auth (ctx_heap (handleProxyStream_enter p w) p) \<noteq> None"
    by (simp add: enter_auth)
  from body_count [OF b this] b show ?thesis
    by (simp add: handleProxyStream_def)
qed


lemmas concrete_defs = cfgA_def w0_def authA_def creqD_def creqH_def envD_def envH_def wS_def
  attRetry_def attEOF_def attIdle_def

lemmas handler_defs = handleProxyStream_def handleProxyStream_body_def handleProxyStream_enter_def
  handleProxyStream_deferred_def connectDestination_def defaultMaxIdleTime_def relay_def
  copyAttempt_def getRateLimitBucket_def limitPerSec_def isTimeoutErr_def time_Sub_def
  time_Add_def Second_def Millisecond_def ServProxyMuxSession_def newSessionContext_def
  sessionContext_close_def NewBucket_def NewBucketWithQuantum_def

lemma run_direct:
  "fst (handleProxyStream cfgA envD 3 0 wS) = Returned
   \<and> fst (snd (handleProxyStream cfgA envD 3 0 wS))
       = [NetDialTimeout ''tcp'' ''example.org:80'' 10000000000,
          GoCopyStreamToConn 3 (NetConn ''tcp'' ''example.org:80''),
          SetReadDeadline (NetConn ''tcp'' ''example.org:80'') 54000000000,
          CopyConnToStream (NetConn ''tcp'' ''example.org:80'') 3 (Some 0),
          SetReadDeadline (NetConn ''tcp'' ''example.org:80'') 55000000000,
          CopyConnToStream (NetConn ''tcp'' ''example.org:80'') 3 (Some 0),
          ConnClose (NetConn ''tcp'' ''example.org:80''), StreamClose 3,
          WaitCloseSig, ConnClose (NetConn ''tcp'' ''example.org:80'')]"
  by (simp add: handler_defs concrete_defs word_sless_alt word_sle_eq Let_def)

lemma run_direct_world:
  "ctx_heap (snd (snd (handleProxyStream cfgA envD 3 0 wS))) 0 = newSessionContext 7 (Some authA) 0
   \<and> emptySessions (snd (snd (handleProxyStream cfgA envD 3 0 wS))) = {0}"
  by (simp add: handler_defs concrete_defs word_sless_alt word_sle_eq Let_def)

theorem C3_relay_loop_retry_or_close_witness:
  "isTimeoutErr (copyErr attRetry)
   \<and> time_Sub (checkNow attRetry) (latestIOTime attRetry) <s 5000 * Millisecond
   \<and> 5000 * Millisecond \<le>s time_Sub (checkNow attIdle) (latestIOTime attIdle)
   \<and> relayLoop (MuxStreamConn 9) False 3 None (5000 * Millisecond) [attRetry]
       = (False, [CopyConnToStream (MuxStreamConn 9) 3 None])
   \<and> relayLoop (MuxStreamConn 9) False 3 None (5000 * Millisecond) [attRetry, attIdle, attEOF]
       = (True, [CopyConnToStream (MuxStreamConn 9) 3 None, CopyConnToStream (MuxStreamConn 9) 3 None,
                 ConnClose (MuxStreamConn 9), StreamClose 3])"
proof -
  have h: "\<forall>a \<in> set [attRetry]. isTimeoutErr (copyErr a)
       \<and> time_Sub (checkNow a) (latestIOTime a) <s 5000 * Millisecond"
    by (simp add: attRetry_def isTimeoutErr_def time_Sub_def Millisecond_def word_sless_alt)
  have i: "5000 * Millisecond \<le>s time_Sub (checkNow attIdle) (latestIOTime attIdle)"
    by (simp add: attIdle_def time_Sub_def Millisecond_def word_sle_eq)
  note t = C3_relay_loop_retry_or_close [OF h, where x = attIdle and rest = "[attEOF]"
      and c = "MuxStreamConn 9" and dl = False and s = 3 and b = None]
  have e1: "concat (map (copyAttempt (MuxStreamConn 9) False 3 None (5000 * Millisecond)) [attRetry])
      = [CopyConnToStream (MuxStreamConn 9) 3 None]"
    by (simp add: copyAttempt_def)
  have e2: "concat (map (copyAttempt (MuxStreamConn 9) False 3 None (5000 * Millisecond))
               ([attRetry] @ [attIdle])) @ [ConnClose (MuxStreamConn 9), StreamClose 3]
      = [CopyConnToStream (MuxStreamConn 9) 3 None, CopyConnToStream (MuxStreamConn 9) 3 None,
         ConnClose (MuxStreamConn 9), StreamClose 3]"
    by (simp add: copyAttempt_def)
  have e3: "[attRetry] @ attIdle # [attEOF] = [attRetry, attIdle, attEOF]"
    by simp
  from t have a: "relayLoop (MuxStreamConn 9) False 3 None (5000 * Millisecond) [attRetry]
       = (False, [CopyConnToStream (MuxStreamConn 9) 3 None])"
    unfolding e1 by blast
  from t i have b: "relayLoop (MuxStreamConn 9) False 3 None (5000 * Millisecond) [attRetry, attIdle, attEOF]
       = (True, [CopyConnToStream (MuxStreamConn 9) 3 None, CopyConnToStream (MuxStreamConn 9) 3 None,
                 ConnClose (MuxStreamConn 9), StreamClose 3])"
    unfolding e2 e3 by blast
  from h i a b show ?thesis by simp
qed

theorem C8_stream_closed_on_every_path_witness:
  "auth (ctx_heap wS 0) \<noteq> None
   \<and> fst (handleProxyStream cfgA envD 3 0 wS) = Returned
   \<and> count_list (fst (snd (handleProxyStream cfgA envD 3 0 wS))) (StreamClose 3) = 1
   \<and> count_list (fst (snd (handleProxyStream cfgA (envD\<lparr>dialResult := Some (NetError True)\<rparr>) 3 0 wS)))
        (StreamClose 3) = 1"
proof -
  have h: "auth (ctx_heap wS 0) \<noteq> None"
    by (simp add: wS_def ServProxyMuxSession_def newSessionContext_def)
  have r: "fst (handleProxyStream cfgA envD 3 0 wS) = Returned"
    by (simp add: run_direct)
  have r2: "fst (handleProxyStream cfgA (envD\<lparr>dialResult := Some (NetError True)\<rparr>) 3 0 wS) = Returned"
    by (simp add: handler_defs concrete_defs word_sless_alt word_sle_eq Let_def)
  from C8_stream_closed_on_every_path [OF h, of cfgA envD 3] r
    C8_stream_closed_on_every_path [OF h, of cfgA "envD\<lparr>dialResult := Some (NetError True)\<rparr>" 3] r2
    h
  show ?thesis by simp
qed

subsection \<open>Hop chains\<close>

lemma run_hops:
  "fst (handleProxyStream cfgA envH 3 0 wS) = Returned
   \<and> fst (snd (handleProxyStream cfgA envH 3 0 wS))
       = [GetMuxStreamByURL ''hopA'' ''alice'' (DefaultServerCipher cfgA),
          StreamConnect 9 ''tcp'' ''example.org:80''
            \<lparr>optDialTimeout = 0, optReadTimeout = 5000, optHops = [''hopB'']\<rparr>,
          GoCopyStreamToConn 3 (MuxStreamConn 9),
          SetReadDeadline (MuxStreamConn 9) 59000000000,
          CopyConnToStream (MuxStreamConn 9) 3 (Some 0),
          SetReadDeadline (MuxStreamConn 9) 60000000000,
          CopyConnToStream (MuxStreamConn 9) 3 (Some 0),
          ConnClose (MuxStreamConn 9), StreamClose 3,
          WaitCloseSig, ConnClose (MuxStreamConn 9)]"
  by (simp add: handler_defs concrete_defs word_sless_alt word_sle_eq Let_def)

text \<open>
  C2, as stated, fails on the identity: for a session authenticated as \<open>alice\<close> on a
  server whose own cipher configuration names the user \<open>server\<close>, the stream to the
  first hop is requested for \<open>alice\<close>, the user of \<open>ctx.auth\<close>, and not for the
  server's user.
\<close>

theorem C2_next_hop_gets_session_user:
  "fst (snd (handleProxyStream cfgA envH 3 0 wS)) ! 0
     = GetMuxStreamByURL ''hopA'' ''alice'' (DefaultServerCipher cfgA)
   \<and> cipherUser (DefaultServerCipher cfgA) = ''server''
   \<and> GetMuxStreamByURL ''hopA'' (cipherUser (DefaultServerCipher cfgA)) (DefaultServerCipher cfgA)
       \<notin> set (fst (snd (handleProxyStream cfgA envH 3 0 wS)))"
proof -
  have u: "cipherUser (DefaultServerCipher cfgA) = ''server''"
    by (simp add: cfgA_def)
  show ?thesis
    unfolding u by (simp add: run_hops)
qed

text \<open>
  C2, amended. For a connect request with hops \<open>next # nextHops\<close> on an allowed
  address: the handler parses \<open>next\<close>, asks \<open>GetMuxStreamByURL\<close> for a stream to it
  with the user of the session's auth record and the server's default cipher, and calls
  \<open>Connect\<close> on that stream with the destination, the request's own dial and read
  timeouts and exactly \<open>nextHops\<close>. When the three steps succeed the outbound stream
  is the destination connection of the relay; when one fails the handler makes no
  further step, closes its stream and returns.
\<close>

theorem C2_hop_chain:
  assumes "readConnectRequest env = Inr creq" and "auth (ctx_heap w p) = Some a"
    and "Allowed cfg (Addr creq)" and "Hops creq = next # nextHops"
  shows "(url_Parse cfg next = Inl e \<longrightarrow>
            fst (handleProxyStream cfg env s p w) = Returned
            \<and> fst (snd (handleProxyStream cfg env s p w)) = [StreamClose s])
     \<and> (url_Parse cfg next = Inr u \<and> getMuxStreamResult env = Inl e \<longrightarrow>
            fst (handleProxyStream cfg env s p w) = Returned
            \<and> fst (snd (handleProxyStream cfg env s p w))
                = [GetMuxStreamByURL u (User a) (DefaultServerCipher cfg), StreamClose s])
     \<and> (url_Parse cfg next = Inr u \<and> getMuxStreamResult env = Inr ns \<and> connectResult env = Some e \<longrightarrow>
            fst (handleProxyStream cfg env s p w) = Returned
            \<and> fst (snd (handleProxyStream cfg env s p w))
                = [GetMuxStreamByURL u (User a) (DefaultServerCipher cfg),
                   StreamConnect ns (Network creq) (Addr creq)
                     \<lparr>optDialTimeout = DialTimeout creq, optReadTimeout = ReadTimeout creq,
                      optHops = nextHops\<rparr>,
                   StreamClose s])
     \<and> (url_Parse cfg next = Inr u \<and> getMuxStreamResult env = Inr ns \<and> connectResult env = None \<longrightarrow>
            fst (handleProxyStream cfg env s p w)
                = fst (relay cfg env a s (MuxStreamConn ns) (defaultMaxIdleTime cfg)
                         (handleProxyStream_enter p w))
            \<and> fst (snd (handleProxyStream cfg env s p w))
                = [GetMuxStreamByURL u (User a) (DefaultServerCipher cfg),
                   StreamConnect ns (Network creq) (Addr creq)
                     \<lparr>optDialTimeout = DialTimeout creq, optReadTimeout = ReadTimeout creq,
                      optHops = nextHops\<rparr>]
                  @ fst (snd (relay cfg env a s (MuxStreamConn ns) (defaultMaxIdleTime cfg)
                                (handleProxyStream_enter p w))))"
  using assms
  by (simp add: handleProxyStream_def handleProxyStream_body_def enter_auth
      connectDestination_def Let_def split: prod.splits)

theorem C2_hop_chain_witness:
  "fst (handleProxyStream cfgA envH 3 0 wS) = Returned
   \<and> fst (snd (handleProxyStream cfgA (envH\<lparr>connectResult := Some (OtherError ''refused'')\<rparr>) 3 0 wS))
       = [GetMuxStreamByURL ''hopA'' ''alice'' (DefaultServerCipher cfgA),
          StreamConnect 9 ''tcp'' ''example.org:80''
            \<lparr>optDialTimeout = 0, optReadTimeout = 5000, optHops = [''hopB'']\<rparr>,
          StreamClose 3]"
proof -
  have h1: "readConnectRequest (envH\<lparr>connectResult := Some (OtherError ''refused'')\<rparr>) = Inr creqH"
    by (simp add: envH_def)
  have h2: "auth (ctx_heap wS 0) = Some authA"
    by (simp add: wS_ctx newSessionContext_def)
  have h3: "Allowed cfgA (Addr creqH)"
    by (simp add: cfgA_def creqH_def)
  have h4: "Hops creqH = ''hopA'' # [''hopB'']"
    by (simp add: creqH_def)
  have h5: "url_Parse cfgA ''hopA'' = Inr ''hopA''
      \<and> getMuxStreamResult (envH\<lparr>connectResult := Some (OtherError ''refused'')\<rparr>) = Inr 9
      \<and> connectResult (envH\<lparr>connectResult := Some (OtherError ''refused'')\<rparr>) = Some (OtherError ''refused'')"
    by (simp add: cfgA_def envH_def envD_def)
  have h6: "User authA = ''alice'' \<and> Network creqH = ''tcp'' \<and> Addr creqH = ''example.org:80''
      \<and> DialTimeout creqH = 0 \<and> ReadTimeout creqH = 5000"
    by (simp add: authA_def creqH_def)
  from C2_hop_chain [OF h1 h2 h3 h4, where u = "''hopA''" and ns = 9
      and e = "OtherError ''refused''" and s = 3] h5 h6 run_hops
  show ?thesis by simp
qed

subsection \<open>The idle timeout of the relay loop\<close>

lemma ms_exact:
  "0 <s r \<Longrightarrow> sint r \<le> 9223372036854 \<Longrightarrow> sint (r * Millisecond) = sint r * 1000000"
  for r :: int64
  by (simp add: Millisecond_def word_sless_alt sint_word_ariths signed_take_bit_int_eq_self)

text \<open>
  C6, as stated, fails: with the read timeout 5000 ms and two hops, the idle timeout of
  the relay loop is the default 10 s (the first read deadline is ten seconds after the
  clock); and a direct request with the read timeout \<open>-5\<close>, which is not zero, also
  keeps the default.
\<close>

theorem C6_hops_keep_default_idle_timeout:
  "snd (connectDestination cfgA envH authA creqH) = Inr (MuxStreamConn 9, 10 * Second)
   \<and> ReadTimeout creqH = 5000
   \<and> 10 * Second \<noteq> ReadTimeout creqH * Millisecond
   \<and> fst (snd (handleProxyStream cfgA envH 3 0 wS)) ! 3
       = SetReadDeadline (MuxStreamConn 9) (time_Add (deadlineNow attRetry) (10 * Second))
   \<and> snd (connectDestination cfgA envD authA (creqD\<lparr>ReadTimeout := - 5\<rparr>))
       = Inr (NetConn ''tcp'' ''example.org:80'', 10 * Second)"
  by (simp add: handler_defs concrete_defs word_sless_alt word_sle_eq Let_def)

text \<open>
  C6, amended. For a request without hops whose dial succeeds and whose read timeout is
  positive, the idle timeout of the relay loop is that read timeout times
  \<open>time.Millisecond\<close> (exactly that many milliseconds up to 9223372036854). For a
  request with hops, or with a read timeout that is not positive, it is the default:
  the configured stream idle timeout in seconds, or 10 s. The handler runs the relay
  with the value so resolved.
\<close>

theorem C6_read_timeout_direct_only:
  "(Hops creq = [] \<and> dialResult env = None \<and> 0 <s ReadTimeout creq \<longrightarrow>
      snd (connectDestination cfg env a creq)
        = Inr (NetConn (Network creq) (Addr creq), ReadTimeout creq * Millisecond))
   \<and> (0 <s ReadTimeout creq \<and> sint (ReadTimeout creq) \<le> 9223372036854 \<longrightarrow>
        sint (ReadTimeout creq * Millisecond) = sint (ReadTimeout creq) * 1000000)
   \<and> (snd (connectDestination cfg env a creq) = Inr (c, m)
        \<and> (Hops creq \<noteq> [] \<or> \<not> 0 <s ReadTimeout creq) \<longrightarrow> m = defaultMaxIdleTime cfg)
   \<and> (readConnectRequest env = Inr creq \<and> auth (ctx_heap w p) = Some a \<and> Allowed cfg (Addr creq)
        \<and> connectDestination cfg env a creq = (ev, Inr (c, m)) \<longrightarrow>
        handleProxyStream_body cfg env s p w
          = (case relay cfg env a s c m w of (out, ev', w') \<Rightarrow> (out, ev @ ev', w')))"
proof -
  have a: "Hops creq = [] \<and> dialResult env = None \<and> 0 <s ReadTimeout creq \<longrightarrow>
      snd (connectDestination cfg env a creq)
        = Inr (NetConn (Network creq) (Addr creq), ReadTimeout creq * Millisecond)"
    by (simp add: connectDestination_def Let_def)
  have b: "snd (connectDestination cfg env a creq) = Inr (c, m)
        \<and> (Hops creq \<noteq> [] \<or> \<not> 0 <s ReadTimeout creq) \<longrightarrow> m = defaultMaxIdleTime cfg"
    by (auto simp: connectDestination_def Let_def split: list.splits sum.splits option.splits)
  have d: "readConnectRequest env = Inr creq \<and> auth (ctx_heap w p) = Some a \<and> Allowed cfg (Addr creq)
        \<and> connectDestination cfg env a creq = (ev, Inr (c, m)) \<longrightarrow>
        handleProxyStream_body cfg env s p w
          = (case relay cfg env a s c m w of (out, ev', w') \<Rightarrow> (out, ev @ ev', w'))"
    by (simp add: handleProxyStream_body_def)
  from a b d ms_exact [of "ReadTimeout creq"] show ?thesis by blast
qed

theorem C6_read_timeout_direct_only_witness:
  "Hops creqD = [] \<and> dialResult envD = None \<and> 0 <s ReadTimeout creqD
   \<and> snd (connectDestination cfgA envD authA creqD)
       = Inr (NetConn ''tcp'' ''example.org:80'', 5000 * Millisecond)
   \<and> sint (5000 * Millisecond) = 5000000000"
proof -
  have h: "Hops creqD = [] \<and> dialResult envD = None \<and> 0 <s ReadTimeout creqD"
    by (simp add: creqD_def envD_def word_sless_alt)
  have g: "Network creqD = ''tcp'' \<and> Addr creqD = ''example.org:80'' \<and> ReadTimeout creqD = 5000"
    by (simp add: creqD_def)
  have k: "sint (ReadTimeout creqD) \<le> 9223372036854 \<and> sint (ReadTimeout creqD) * 1000000 = 5000000000"
    by (simp add: creqD_def)
  from C6_read_timeout_direct_only [of creqD envD cfgA authA] h g k show ?thesis
    by simp
qed

subsection \<open>The reaper's clock\<close>

lemma close_keeps_time:
  "activeIOTime (ctx_heap (snd (sessionContext_close p w)) q) = activeIOTime (ctx_heap w q)"
  by (simp add: sessionContext_close_def Let_def)

lemma authHandshake_keeps:
  "authHandshake cfg sess pms p stream ra ok w = (r, ev, w1) \<Longrightarrow>
     activeIOTime (ctx_heap w1 q) = activeIOTime (ctx_heap w q)
     \<and> closed (ctx_heap w1 q) = closed (ctx_heap w q)
     \<and> streamCouter (ctx_heap w1 q) = streamCouter (ctx_heap w q)
     \<and> emptySessions w1 = emptySessions w"
  by (auto simp: authHandshake_def Let_def split: sum.splits if_splits)

lemma serveLoop_keeps:
  "serveLoop cfg sess pms p script w = (r, ev, w') \<Longrightarrow>
     activeIOTime (ctx_heap w' q) = activeIOTime (ctx_heap w q)
     \<and> closed (ctx_heap w' q) = closed (ctx_heap w q)
     \<and> streamCouter (ctx_heap w' q) = streamCouter (ctx_heap w q)
     \<and> emptySessions w' = emptySessions w"
proof (induction script arbitrary: w r ev w')
  case Nil
  then show ?case by simp
next
  case (Cons x script)
  show ?case
  proof (cases x)
    case (AcceptError e)
    with Cons.prems show ?thesis by simp
  next
    case (AcceptStream stream ra ok)
    show ?thesis
    proof (cases "auth (ctx_heap w p) = None")
      case True
      obtain r1 ev1 w1 where h: "authHandshake cfg sess pms p stream ra ok w = (r1, ev1, w1)"
        by (cases "authHandshake cfg sess pms p stream ra ok w")
      note k = authHandshake_keeps [OF h, of q]
      show ?thesis
      proof (cases r1)
        case None
        obtain r2 ev2 w2 where l: "serveLoop cfg sess pms p script w1 = (r2, ev2, w2)"
          by (cases "serveLoop cfg sess pms p script w1")
        with Cons.prems AcceptStream True h None have "w' = w2" by simp
        with Cons.IH [OF l] k show ?thesis by simp
      next
        case (Some e)
        with Cons.prems AcceptStream True h have "w' = w1" by simp
        with k show ?thesis by simp
      qed
    next
      case False
      obtain r2 ev2 w2 where l: "serveLoop cfg sess pms p script w = (r2, ev2, w2)"
        by (cases "serveLoop cfg sess pms p script w")
      with Cons.prems AcceptStream False have "w' = w2" by auto
      with Cons.IH [OF l] show ?thesis by simp
    qed
  qed
qed

lemma handleProxyStream_keeps_time:
  "activeIOTime (ctx_heap (snd (snd (handleProxyStream cfg env s p w))) q)
     = activeIOTime (ctx_heap w q)"
proof -
  obtain out ev w' where b:
    "handleProxyStream_body cfg env s p (handleProxyStream_enter p w) = (out, ev, w')"
    by (cases "handleProxyStream_body cfg env s p (handleProxyStream_enter p w)")
  from body_keeps_ctx [OF b] have "ctx_heap w' = ctx_heap (handleProxyStream_enter p w)"
    by simp
  then have "activeIOTime (ctx_heap w' q) = activeIOTime (ctx_heap w q)"
    and "activeIOTime (ctx_heap (handleProxyStream_deferred p w') q) = activeIOTime (ctx_heap w q)"
    by (simp_all add: handleProxyStream_enter_def handleProxyStream_deferred_def Let_def)
  with b show ?thesis
    by (simp add: handleProxyStream_def)
qed

lemma ServProxyMuxSession_time:
  "activeIOTime (ctx_heap (snd (snd (ServProxyMuxSession cfg sess pms a now p script w))) p) = now"
proof -
  let ?w1 = "w\<lparr>ctx_heap := (ctx_heap w)(p := newSessionContext sess a now)\<rparr>"
  obtain r ev w2 where l: "serveLoop cfg sess pms p script ?w1 = (r, ev, w2)"
    by (cases "serveLoop cfg sess pms p script ?w1")
  from serveLoop_keeps [OF l, of p]
  have t: "activeIOTime (ctx_heap w2 p) = now"
    by (simp add: newSessionContext_def)
  obtain ev' w3 where c: "sessionContext_close p w2 = (ev', w3)"
    by (cases "sessionContext_close p w2")
  with close_keeps_time [of p w2 p] t have "activeIOTime (ctx_heap w3 p) = now"
    by simp
  with l t c show ?thesis
    by (cases r) (simp_all add: ServProxyMuxSession_def)
qed

text \<open>
  C4, amended. \<open>ServProxyMuxSession\<close> sets \<open>activeIOTime\<close> to the clock when the
  session starts, and neither its accept loop nor \<open>handleProxyStream\<close>, relay loop
  included, writes it afterwards. So the reaper, visiting the context after the session
  has served any streams, closes it exactly when the time since the session started
  exceeds the session idle timeout.
\<close>

theorem C4_activeIOTime_is_session_start:
  "activeIOTime (ctx_heap (snd (snd (handleProxyStream cfg env s p v))) q)
     = activeIOTime (ctx_heap v q)
   \<and> activeIOTime (ctx_heap (snd (snd (ServProxyMuxSession cfg sess pms a now p script w))) p) = now
   \<and> reaperVisit cfg t p
        (snd (snd (handleProxyStream cfg env s p
           (snd (snd (ServProxyMuxSession cfg sess pms a now p script w))))))
     = (if SessionIdleTimeout cfg * Second <s time_Sub t now
        then sessionContext_close p
               (snd (snd (handleProxyStream cfg env s p
                  (snd (snd (ServProxyMuxSession cfg sess pms a now p script w))))))
        else ([], snd (snd (handleProxyStream cfg env s p
                  (snd (snd (ServProxyMuxSession cfg sess pms a now p script w)))))))"
  by (simp add: handleProxyStream_keeps_time ServProxyMuxSession_time reaperVisit_def)

lemma wIdle_ctx:
  "ctx_heap wIdle 0 = newSessionContext 7 (Some authA) 0 \<and> emptySessions wIdle = {0}"
  by (simp add: wIdle_def run_direct_world)

text \<open>
  C4, as stated, fails. The session starts at instant 0; a handler relays on stream 3,
  its last copy succeeding at 100 s, and returns; \<open>activeIOTime\<close> is still 0, and the
  reaper's tick at 101 s, with a session idle timeout of 60 s, closes the session.
\<close>

theorem C4_active_stream_does_not_refresh:
  "fst (handleProxyStream cfgA envD 3 0 wS) = Returned
   \<and> fst (snd (handleProxyStream cfgA envD 3 0 wS)) ! 5
       = CopyConnToStream (NetConn ''tcp'' ''example.org:80'') 3 (Some 0)
   \<and> copyErr attEOF = None \<and> checkNow attEOF = 100000000000
   \<and> activeIOTime (ctx_heap (snd (snd (handleProxyStream cfgA envD 3 0 wS))) 0) = 0
   \<and> fst (reaperTick cfgA 101000000000 [0] (snd (snd (handleProxyStream cfgA envD 3 0 wS))))
       = [SessionClose 7]"
proof -
  have r: "fst (reaperTick cfgA 101000000000 [0] wIdle) = [SessionClose 7]"
    by (simp add: reaperTick_def reaperVisit_def wIdle_ctx sessionContext_close_def
        newSessionContext_def authA_def cfgA_def time_Sub_def Second_def word_sless_alt Let_def)
  have a: "activeIOTime (ctx_heap wIdle 0) = 0"
    by (simp add: wIdle_ctx newSessionContext_def)
  from r a show ?thesis
    by (simp add: run_direct wIdle_def attEOF_def)
qed

theorem C4_activeIOTime_is_session_start_witness:
  "activeIOTime (ctx_heap (snd (snd (handleProxyStream cfgA envD 3 0 wS))) 0) = 0"
  using C4_activeIOTime_is_session_start [of cfgA envD 3 0 wS 0] wS_ctx
  by (simp add: newSessionContext_def)

subsection \<open>Closing a session context\<close>

lemma handleProxyStream_closed:
  assumes "closed (ctx_heap w p)"
  shows "closed (ctx_heap (snd (snd (handleProxyStream cfg env s p w))) p)
     \<and> p \<notin> emptySessions (snd (snd (handleProxyStream cfg env s p w)))"
proof -
  obtain out ev w' where b:
    "handleProxyStream_body cfg env s p (handleProxyStream_enter p w) = (out, ev, w')"
    by (cases "handleProxyStream_body cfg env s p (handleProxyStream_enter p w)")
  from body_keeps_ctx [OF b]
  have k: "ctx_heap w' = ctx_heap (handleProxyStream_enter p w)"
    "emptySessions w' = emptySessions (handleProxyStream_enter p w)"
    by simp_all
  with assms have c: "closed (ctx_heap w' p) \<and> p \<notin> emptySessions w'"
    by (simp add: handleProxyStream_enter_def)
  then have "closed (ctx_heap (handleProxyStream_deferred p w') p)
     \<and> p \<notin> emptySessions (handleProxyStream_deferred p w')"
    by (simp add: handleProxyStream_deferred_def Let_def)
  with b c show ?thesis
    by (simp add: handleProxyStream_def)
qed

text \<open>
  C9, as stated, fails. The context of session 7 is in \<open>emptySessions\<close>; the reaper's
  tick closes it (the session is closed, the flag set); the accept loop then leaves
  \<open>ServProxyMuxSession\<close>, whose deferred \<open>ctx.close()\<close> closes the session a second
  time. Also without the reaper: on a rejected user, line 239 closes the session and the
  deferred \<open>ctx.close()\<close> closes it again.
\<close>

theorem C9_teardown_runs_twice:
  "0 \<in> emptySessions wIdle
   \<and> fst (reaperTick cfgA 101000000000 [0] wIdle) = [SessionClose 7]
   \<and> closed (ctx_heap (snd (reaperTick cfgA 101000000000 [0] wIdle)) 0)
   \<and> fst (sessionContext_close 0 (snd (reaperTick cfgA 101000000000 [0] wIdle))) = [SessionClose 7]
   \<and> fst (snd (ServProxyMuxSession cfgA 7 False None 0 0
                 [AcceptStream 3 (Inr (authA\<lparr>User := ''mallory''\<rparr>)) False] w0))
       = [SessionClose 7, SessionClose 7]"
  by (simp add: reaperTick_def reaperVisit_def wIdle_ctx sessionContext_close_def
      newSessionContext_def authA_def cfgA_def time_Sub_def Second_def word_sless_alt Let_def
      ServProxyMuxSession_def authHandshake_def w0_def)

text \<open>
  C9, amended. Every call of \<open>close\<close> sets the flag, closes the underlying session
  (after deregistering a peer-relay session) and removes the context from
  \<open>emptySessions\<close>; a second call does all of it again. Once set, the flag stays set
  through handlers and the accept loop, and it keeps a handler's exit from putting the
  context back into \<open>emptySessions\<close>; the reaper closes only contexts it finds there.
\<close>

theorem C9_close_is_unguarded:
  "closed (ctx_heap (snd (sessionContext_close p w)) p)
   \<and> p \<notin> emptySessions (snd (sessionContext_close p w))
   \<and> SessionClose (session (ctx_heap w p)) \<in> set (fst (sessionContext_close p w))
   \<and> fst (sessionContext_close p (snd (sessionContext_close p w))) = fst (sessionContext_close p w)
   \<and> (closed (ctx_heap w p) \<longrightarrow>
        closed (ctx_heap (snd (snd (handleProxyStream cfg env s p w))) p)
        \<and> p \<notin> emptySessions (snd (snd (handleProxyStream cfg env s p w)))
        \<and> closed (ctx_heap (snd (snd (serveLoop cfg sess pms p script w))) p))
   \<and> (p \<notin> emptySessions w \<longrightarrow> reaperTick cfg now [p] w = ([], w))"
proof -
  have a: "closed (ctx_heap (snd (sessionContext_close p w)) p)
   \<and> p \<notin> emptySessions (snd (sessionContext_close p w))
   \<and> SessionClose (session (ctx_heap w p)) \<in> set (fst (sessionContext_close p w))
   \<and> fst (sessionContext_close p (snd (sessionContext_close p w))) = fst (sessionContext_close p w)"
    by (simp add: sessionContext_close_def Let_def split: option.splits)
  have b: "closed (ctx_heap (snd (snd (serveLoop cfg sess pms p script w))) p)"
    if "closed (ctx_heap w p)"
  proof -
    obtain r ev w' where l: "serveLoop cfg sess pms p script w = (r, ev, w')"
      by (cases "serveLoop cfg sess pms p script w")
    from serveLoop_keeps [OF l, of p] that l show ?thesis by simp
  qed
  have c: "p \<notin> emptySessions w \<longrightarrow> reaperTick cfg now [p] w = ([], w)"
    by (simp add: reaperTick_def)
  from a b c handleProxyStream_closed [of w p cfg env s] show ?thesis
    by blast
qed

theorem C9_close_is_unguarded_witness:
  "closed (ctx_heap (snd (sessionContext_close 0 wIdle)) 0)
   \<and> fst (sessionContext_close 0 (snd (sessionContext_close 0 wIdle))) = [SessionClose 7]
   \<and> 0 \<notin> emptySessions (snd (snd (handleProxyStream cfgA envD 3 0 (snd (sessionContext_close 0 wIdle)))))"
proof -
  have e: "fst (sessionContext_close 0 wIdle) = [SessionClose 7]"
    by (simp add: sessionContext_close_def wIdle_ctx newSessionContext_def authA_def Let_def)
  note t = C9_close_is_unguarded [of 0 wIdle]
  note u = C9_close_is_unguarded [of 0 "snd (sessionContext_close 0 wIdle)" cfgA envD 3]
  from t have c: "closed (ctx_heap (snd (sessionContext_close 0 wIdle)) 0)"
    by blast
  from t e have d: "fst (sessionContext_close 0 (snd (sessionContext_close 0 wIdle))) = [SessionClose 7]"
    by simp
  from u c have "0 \<notin> emptySessions (snd (snd (handleProxyStream cfgA envD 3 0 (snd (sessionContext_close 0 wIdle)))))"
    by blast
  with c d show ?thesis by blast
qed

subsection \<open>The auth handshake\<close>

text \<open>
  C1. On a context without \<open>auth\<close>, for the next accepted stream: when the auth
  request cannot be read, the loop goes on with the following accept, nothing closed or
  changed; when the user is rejected, the compressor is invalid, or the peer-relay
  registration fails, the session is closed and \<open>ServProxyMuxSession\<close> returns
  \<open>ErrAuthFailed\<close>, no auth-OK written; otherwise the auth record is stored, the
  auth-OK response is written, the handshake stream is closed (no other stream and not
  the session), and the loop goes on.
\<close>

theorem C1_auth_handshake:
  assumes "auth (ctx_heap w p) = None"
  shows "serveLoop cfg sess pms p (AcceptStream s (Inl e) ok # rest) w
           = serveLoop cfg sess pms p rest w
     \<and> (\<not> VerifyUser (DefaultServerCipher cfg) (User r)
          \<or> \<not> IsValidCompressor cfg (CompressMethod r)
          \<or> (P2SPRoomId r \<noteq> [] \<and> \<not> ok) \<longrightarrow>
          fst (serveLoop cfg sess pms p (AcceptStream s (Inr r) ok # rest) w) = Some ErrAuthFailed
          \<and> last (fst (snd (serveLoop cfg sess pms p (AcceptStream s (Inr r) ok # rest) w)))
                = SessionClose sess
          \<and> WriteAuthOK s \<notin> set (fst (snd (serveLoop cfg sess pms p (AcceptStream s (Inr r) ok # rest) w)))
          \<and> fst (ServProxyMuxSession cfg sess pms None now p (AcceptStream s (Inr r) ok # rest) v)
                = Some ErrAuthFailed
          \<and> SessionClose sess
                \<in> set (fst (snd (ServProxyMuxSession cfg sess pms None now p
                                   (AcceptStream s (Inr r) ok # rest) v))))
     \<and> (VerifyUser (DefaultServerCipher cfg) (User r)
          \<and> IsValidCompressor cfg (CompressMethod r)
          \<and> (P2SPRoomId r = [] \<or> ok) \<longrightarrow>
          fst (authHandshake cfg sess pms p s (Inr r) ok w) = None
          \<and> fst (snd (authHandshake cfg sess pms p s (Inr r) ok w))
                = (if P2SPRoomId r \<noteq> [] then [AddP2spSession (P2SPRoomId r) (P2SPConnId r) sess] else [])
                  @ [WriteAuthOK s, StreamClose s]
                  @ (if pms then [ResetCryptoContext sess (CipherMethod r) (CipherCounter r)] else [])
          \<and> auth (ctx_heap (snd (snd (authHandshake cfg sess pms p s (Inr r) ok w))) p) = Some r
          \<and> serveLoop cfg sess pms p (AcceptStream s (Inr r) ok # rest) w
                = (case serveLoop cfg sess pms p rest (snd (snd (authHandshake cfg sess pms p s (Inr r) ok w))) of
                     (res, ev', w2) \<Rightarrow>
                       (res, fst (snd (authHandshake cfg sess pms p s (Inr r) ok w)) @ ev', w2)))"
proof -
  have a: "serveLoop cfg sess pms p (AcceptStream s (Inl e) ok # rest) w
           = serveLoop cfg sess pms p rest w"
    using assms by (simp add: authHandshake_def split: prod.splits)
  have b: "fst (serveLoop cfg sess pms p (AcceptStream s (Inr r) ok # rest) w) = Some ErrAuthFailed
          \<and> last (fst (snd (serveLoop cfg sess pms p (AcceptStream s (Inr r) ok # rest) w)))
                = SessionClose sess
          \<and> WriteAuthOK s \<notin> set (fst (snd (serveLoop cfg sess pms p (AcceptStream s (Inr r) ok # rest) w)))"
    if "\<not> VerifyUser (DefaultServerCipher cfg) (User r)
          \<or> \<not> IsValidCompressor cfg (CompressMethod r)
          \<or> (P2SPRoomId r \<noteq> [] \<and> \<not> ok)"
    using assms that by (auto simp: authHandshake_def Let_def)
  have c: "fst (ServProxyMuxSession cfg sess pms None now p (AcceptStream s (Inr r) ok # rest) v)
                = Some ErrAuthFailed
          \<and> SessionClose sess
                \<in> set (fst (snd (ServProxyMuxSession cfg sess pms None now p
                                   (AcceptStream s (Inr r) ok # rest) v)))"
    if "\<not> VerifyUser (DefaultServerCipher cfg) (User r)
          \<or> \<not> IsValidCompressor cfg (CompressMethod r)
          \<or> (P2SPRoomId r \<noteq> [] \<and> \<not> ok)"
    using that
    by (auto simp: ServProxyMuxSession_def newSessionContext_def authHandshake_def Let_def
          sessionContext_close_def split: prod.splits)
  have d: "fst (authHandshake cfg sess pms p s (Inr r) ok w) = None
          \<and> fst (snd (authHandshake cfg sess pms p s (Inr r) ok w))
                = (if P2SPRoomId r \<noteq> [] then [AddP2spSession (P2SPRoomId r) (P2SPConnId r) sess] else [])
                  @ [WriteAuthOK s, StreamClose s]
                  @ (if pms then [ResetCryptoContext sess (CipherMethod r) (CipherCounter r)] else [])
          \<and> auth (ctx_heap (snd (snd (authHandshake cfg sess pms p s (Inr r) ok w))) p) = Some r"
    if "VerifyUser (DefaultServerCipher cfg) (User r)
          \<and> IsValidCompressor cfg (CompressMethod r)
          \<and> (P2SPRoomId r = [] \<or> ok)"
    using that by (auto simp: authHandshake_def Let_def)
  have f: "serveLoop cfg sess pms p (AcceptStream s (Inr r) ok # rest) w
                = (case serveLoop cfg sess pms p rest (snd (snd (authHandshake cfg sess pms p s (Inr r) ok w))) of
                     (res, ev', w2) \<Rightarrow>
                       (res, fst (snd (authHandshake cfg sess pms p s (Inr r) ok w)) @ ev', w2))"
    if "fst (authHandshake cfg sess pms p s (Inr r) ok w) = None"
    using assms that
    by (cases "authHandshake cfg sess pms p s (Inr r) ok w") simp
  from a b c d f show ?thesis by blast
qed

theorem C1_auth_handshake_witness:
  "auth (ctx_heap w0 0) = None
   \<and> fst (serveLoop cfgA 7 False 0 [AcceptStream 3 (Inr (authA\<lparr>User := ''mallory''\<rparr>)) False] w0)
       = Some ErrAuthFailed
   \<and> last (fst (snd (serveLoop cfgA 7 False 0 [AcceptStream 3 (Inr (authA\<lparr>User := ''mallory''\<rparr>)) False] w0)))
       = SessionClose 7
   \<and> fst (snd (authHandshake cfgA 7 False 0 3 (Inr authA) False w0)) = [WriteAuthOK 3, StreamClose 3]
   \<and> auth (ctx_heap (snd (snd (authHandshake cfgA 7 False 0 3 (Inr authA) False w0))) 0) = Some authA"
proof -
  have h: "auth (ctx_heap w0 0) = None"
    by (simp add: w0_def newSessionContext_def)
  have bad: "\<not> VerifyUser (DefaultServerCipher cfgA) (User (authA\<lparr>User := ''mallory''\<rparr>))"
    by (simp add: cfgA_def)
  have good: "VerifyUser (DefaultServerCipher cfgA) (User authA)
      \<and> IsValidCompressor cfgA (CompressMethod authA) \<and> P2SPRoomId authA = []"
    by (simp add: cfgA_def authA_def)
  note t1 = C1_auth_handshake [OF h, where cfg = cfgA and r = "authA\<lparr>User := ''mallory''\<rparr>"
      and sess = 7 and pms = False and s = 3 and ok = False and rest = "[]"]
  note t2 = C1_auth_handshake [OF h, where cfg = cfgA and r = authA
      and sess = 7 and pms = False and s = 3 and ok = False and rest = "[]"]
  from t1 bad have a: "fst (serveLoop cfgA 7 False 0 [AcceptStream 3 (Inr (authA\<lparr>User := ''mallory''\<rparr>)) False] w0)
       = Some ErrAuthFailed
   \<and> last (fst (snd (serveLoop cfgA 7 False 0 [AcceptStream 3 (Inr (authA\<lparr>User := ''mallory''\<rparr>)) False] w0)))
       = SessionClose 7"
    by blast
  from t2 good have b: "fst (snd (authHandshake cfgA 7 False 0 3 (Inr authA) False w0))
                = (if P2SPRoomId authA \<noteq> [] then [AddP2spSession (P2SPRoomId authA) (P2SPConnId authA) 7] else [])
                  @ [WriteAuthOK 3, StreamClose 3]
                  @ (if False then [ResetCryptoContext 7 (CipherMethod authA) (CipherCounter authA)] else [])
     \<and> auth (ctx_heap (snd (snd (authHandshake cfgA 7 False 0 3 (Inr authA) False w0))) 0) = Some authA"
    by blast
  from h a b good show ?thesis by simp
qed

end
